theory Spec2Isabelle
  imports Complex_Main
begin

section \<open>Data model of \<open>src/app/page.tsx\<close>\<close>

text \<open>
  The development embeds the \<open>Navbar\<close> component of \<open>src/app/page.tsx\<close> and its custom
  hooks. JavaScript numbers that the component only compares and divides (scroll positions,
  the threshold, the logo scale, the duration) are reals; the two viewport widths, which
  the DOM defines as integers, are integers. Optional fields of the configuration bag are
  options, and the destructuring defaults of the component are separate definitions.
\<close>

datatype NavSide = SideLeft | SideRight | SideTop | SideBottom

datatype Breakpoint = Sm | Md | Lg

record LogoScale =
  initial :: real
  scrolled :: real

record NavLink =
  link_id :: string
  label :: string
  href :: string

record NavbarConfig =
  side :: "NavSide option"
  initialBg :: "string option"
  scrolledBg :: "string option"
  scrollThreshold :: "real option"
  logoScale :: "LogoScale option"
  closeOnRouteChange :: "bool option"
  trapFocus :: "bool option"
  disableBodyScrollOnOpen :: "bool option"
  ariaLabel :: "string option"
  animateDuration :: "real option"
  enableScrollSpy :: "bool option"
  mobileBreakpoint :: "Breakpoint option"

text \<open>
  The properties of the component. The caller-supplied callback \<open>onNavigate\<close> is opaque:
  the model records whether it was supplied, and a call of it is an effect. The \<open>logo\<close>
  node and the \<open>width\<close> option are never read by the logic and are left out.
\<close>

record NavbarProps =
  config :: "NavbarConfig option"
  links :: "NavLink list"
  onNavigate :: bool

definition empty_config :: NavbarConfig where
  "empty_config = \<lparr> side = None, initialBg = None, scrolledBg = None,
     scrollThreshold = None, logoScale = None, closeOnRouteChange = None,
     trapFocus = None, disableBodyScrollOnOpen = None, ariaLabel = None,
     animateDuration = None, enableScrollSpy = None, mobileBreakpoint = None \<rparr>"

definition the_config :: "NavbarProps \<Rightarrow> NavbarConfig" where
  "the_config P = (case config P of None \<Rightarrow> empty_config | Some c \<Rightarrow> c)"

subsection \<open>The destructuring defaults\<close>

definition or_default :: "'a option \<Rightarrow> 'a \<Rightarrow> 'a" where
  "or_default v d = (case v of None \<Rightarrow> d | Some x \<Rightarrow> x)"

definition the_side :: "NavbarProps \<Rightarrow> NavSide" where
  "the_side P = or_default (side (the_config P)) SideRight"

definition the_initialBg :: "NavbarProps \<Rightarrow> string" where
  "the_initialBg P = or_default (initialBg (the_config P)) ''transparent''"

definition the_scrolledBg :: "NavbarProps \<Rightarrow> string" where
  "the_scrolledBg P = or_default (scrolledBg (the_config P)) ''bg-white/95 shadow-md''"

definition the_scrollThreshold :: "NavbarProps \<Rightarrow> real" where
  "the_scrollThreshold P = or_default (scrollThreshold (the_config P)) 20"

definition the_logoScale :: "NavbarProps \<Rightarrow> LogoScale" where
  "the_logoScale P =
     or_default (logoScale (the_config P)) \<lparr> initial = 1, scrolled = 92 / 100 \<rparr>"

definition the_closeOnRouteChange :: "NavbarProps \<Rightarrow> bool" where
  "the_closeOnRouteChange P = or_default (closeOnRouteChange (the_config P)) True"

definition the_trapFocus :: "NavbarProps \<Rightarrow> bool" where
  "the_trapFocus P = or_default (trapFocus (the_config P)) True"

definition the_disableBodyScrollOnOpen :: "NavbarProps \<Rightarrow> bool" where
  "the_disableBodyScrollOnOpen P =
     or_default (disableBodyScrollOnOpen (the_config P)) True"

definition the_ariaLabel :: "NavbarProps \<Rightarrow> string" where
  "the_ariaLabel P = or_default (ariaLabel (the_config P)) ''Main navigation''"

definition the_animateDuration :: "NavbarProps \<Rightarrow> real" where
  "the_animateDuration P = or_default (animateDuration (the_config P)) 300"

definition the_enableScrollSpy :: "NavbarProps \<Rightarrow> bool" where
  "the_enableScrollSpy P = or_default (enableScrollSpy (the_config P)) False"

definition the_mobileBreakpoint :: "NavbarProps \<Rightarrow> Breakpoint" where
  "the_mobileBreakpoint P = or_default (mobileBreakpoint (the_config P)) Md"

subsection \<open>The browser and the component state\<close>

text \<open>
  DOM elements are compared by identity (\<open>===\<close>), so an element is named by a node. The
  nodes inside the slide-in panel are named after the JSX that renders them, the anchor and
  the list item of a link by the position of the link; every other node of the document
  is a \<open>PageNode\<close>. The browser record holds what the component reads from \<open>window\<close>
  and \<open>document\<close>, and the inline style of \<open>document.body\<close>, which the component
  also writes.
\<close>

datatype node =
    CloseRow
  | CloseButton
  | CloseIcon
  | PanelNav
  | PanelList
  | PanelItem nat
  | PanelAnchor nat
  | PageNode nat

record Element =
  tagName :: string
  attributes :: "(string \<times> string) list"

text \<open>The descendants of an element in document order, each with its tag and attributes.\<close>

record Container =
  descendants :: "(node \<times> Element) list"

text \<open>
  The inline style of the body: the values that \<open>style.overflow\<close> and
  \<open>style.paddingRight\<close> read, and under \<open>otherProperties\<close> every property whose value
  does not derive from these two, so neither \<open>overflow-x\<close> and \<open>overflow-y\<close>, which
  the \<open>overflow\<close> shorthand writes, nor the \<open>padding\<close> shorthand.
\<close>

record BodyStyle =
  overflow :: string
  paddingRight :: string
  otherProperties :: "string \<Rightarrow> string"

record Browser =
  scrollY :: real
  innerWidth :: int
  clientWidth :: int
  bodyStyle :: BodyStyle
  locationHash :: string
  getElementById :: "string \<Rightarrow> node option"
  activeElement :: "node option"
  matchMedia :: "string \<Rightarrow> bool"

text \<open>The four \<open>useState\<close> cells of the component and of its hooks.\<close>

record NavbarState =
  isOpen :: bool
  currentRoute :: string
  isScrolled :: bool
  activeId :: string

definition initial_state :: NavbarState where
  "initial_state =
     \<lparr> isOpen = False, currentRoute = '''', isScrolled = False, activeId = '''' \<rparr>"

section \<open>\<open>useScrollState\<close>\<close>

text \<open>
  \<open>handleScroll\<close> is run once when the effect is set up and again at every scroll event:
  \<open>setIsScrolled(window.scrollY > threshold)\<close>.
\<close>

definition handleScroll :: "real \<Rightarrow> Browser \<Rightarrow> NavbarState \<Rightarrow> NavbarState" where
  "handleScroll threshold b s = s\<lparr> isScrolled := scrollY b > threshold \<rparr>"

text \<open>The parts of the rendered output that depend on \<open>isScrolled\<close>.\<close>

definition bgClass :: "NavbarProps \<Rightarrow> NavbarState \<Rightarrow> string" where
  "bgClass P s = (if isScrolled s then the_scrolledBg P else the_initialBg P)"

definition currentLogoScale :: "NavbarProps \<Rightarrow> NavbarState \<Rightarrow> real" where
  "currentLogoScale P s =
     (if isScrolled s then scrolled (the_logoScale P) else initial (the_logoScale P))"

definition navPadding :: "NavbarState \<Rightarrow> string" where
  "navPadding s = (if isScrolled s then ''0.75rem'' else ''1.25rem'')"

definition linkPadding :: "NavbarState \<Rightarrow> string" where
  "linkPadding s = (if isScrolled s then ''0.5rem'' else ''0.75rem'')"

section \<open>Effects requested from the browser\<close>

text \<open>
  Calls that leave the component are recorded, in the order the code makes them: the
  caller's callback, \<open>scrollIntoView({ behavior: "smooth" })\<close>, the timer of \<open>closeMenu\<close>
  that refocuses the toggle button after 100 ms, \<open>preventDefault\<close> and \<open>focus\<close>.
\<close>

datatype Effect =
    CallOnNavigate string
  | ScrollIntoViewSmooth node
  | FocusToggleButtonAfter nat
  | PreventDefault
  | Focus node

section \<open>\<open>useLockBodyScroll\<close>\<close>

text \<open>
  The template literal that builds the padding prints the scrollbar width, an integer, in
  decimal, followed by \<open>px\<close>.
\<close>

definition digit_char :: "nat \<Rightarrow> char" where
  "digit_char n = ''0123456789'' ! (n mod 10)"

fun show_nat :: "nat \<Rightarrow> string" where
  "show_nat n = (if n < 10 then [digit_char n] else show_nat (n div 10) @ [digit_char n])"

declare show_nat.simps [simp del]

definition show_int :: "int \<Rightarrow> string" where
  "show_int i = (if i < 0 then CHR ''-'' # show_nat (nat (- i)) else show_nat (nat i))"

text \<open>
  Assignments to the style. A padding cannot be negative: the setter of
  \<open>paddingRight\<close> ignores a length written with a minus sign, and the property keeps the
  value it had. The other values that the component assigns are accepted: \<open>hidden\<close>,
  a width written with digits and \<open>px\<close>, and what was read from the same property
  before.
\<close>

definition negative_length :: "string \<Rightarrow> bool" where
  "negative_length v = (case v of [] \<Rightarrow> False | c # _ \<Rightarrow> c = CHR ''-'')"

definition set_overflow :: "string \<Rightarrow> BodyStyle \<Rightarrow> BodyStyle" where
  "set_overflow v st = st\<lparr> overflow := v \<rparr>"

definition set_paddingRight :: "string \<Rightarrow> BodyStyle \<Rightarrow> BodyStyle" where
  "set_paddingRight v st = (if negative_length v then st else st\<lparr> paddingRight := v \<rparr>)"

text \<open>
  The closure returned by the effect keeps \<open>originalOverflow\<close> and
  \<open>originalPaddingRight\<close>.
\<close>

type_synonym LockCleanup = "string \<times> string"

definition useLockBodyScroll_effect ::
  "bool \<Rightarrow> Browser \<Rightarrow> Browser \<times> LockCleanup option" where
  "useLockBodyScroll_effect lock b =
     (if \<not> lock then (b, None)
      else
        let originalOverflow = overflow (bodyStyle b);
            originalPaddingRight = paddingRight (bodyStyle b);
            scrollbarWidth = innerWidth b - clientWidth b
        in (b\<lparr> bodyStyle :=
                 set_paddingRight (show_int scrollbarWidth @ ''px'')
                   (set_overflow ''hidden'' (bodyStyle b)) \<rparr>,
            Some (originalOverflow, originalPaddingRight)))"

definition useLockBodyScroll_cleanup :: "LockCleanup option \<Rightarrow> Browser \<Rightarrow> Browser" where
  "useLockBodyScroll_cleanup c b =
     (case c of
        None \<Rightarrow> b
      | Some (originalOverflow, originalPaddingRight) \<Rightarrow>
          b\<lparr> bodyStyle :=
                set_paddingRight originalPaddingRight
                  (set_overflow originalOverflow (bodyStyle b)) \<rparr>)"

section \<open>\<open>useScrollSpy\<close>\<close>

record IntersectionObserverEntry =
  isIntersecting :: bool
  target :: node

text \<open>
  One observer per section id whose element exists; \<open>None\<close> stands for the \<open>null\<close> the
  source keeps in the array where the element is missing. The effect depends on the array
  of section ids, which every render builds anew, so the observers are those of the
  current document.
\<close>

definition useScrollSpy_observers ::
  "string list \<Rightarrow> bool \<Rightarrow> Browser \<Rightarrow> (string \<times> node) option list" where
  "useScrollSpy_observers sectionIds enabled b =
     (if \<not> enabled then []
      else map (\<lambda>i. case getElementById b i of
                       None \<Rightarrow> None
                     | Some element \<Rightarrow> Some (i, element)) sectionIds)"

text \<open>The callback of the observer created for section \<open>i\<close>.\<close>

definition observer_callback ::
  "string \<Rightarrow> IntersectionObserverEntry list \<Rightarrow> NavbarState \<Rightarrow> NavbarState" where
  "observer_callback i entries s =
     (case entries of
        [] \<Rightarrow> s
      | entry # _ \<Rightarrow> if isIntersecting entry then s\<lparr> activeId := i \<rparr> else s)"

section \<open>\<open>useFocusTrap\<close>\<close>

definition has_attr :: "Element \<Rightarrow> string \<Rightarrow> bool" where
  "has_attr e a = (map_of (attributes e) a \<noteq> None)"

text \<open>
  The selector list
  \<open>a[href], button:not([disabled]), textarea, input, select, [tabindex]:not([tabindex="-1"])\<close>.
  Tag names are in lower case.
\<close>

definition focusable_selector :: "Element \<Rightarrow> bool" where
  "focusable_selector e =
     ((tagName e = ''a'' \<and> has_attr e ''href'')
      \<or> (tagName e = ''button'' \<and> \<not> has_attr e ''disabled'')
      \<or> tagName e = ''textarea''
      \<or> tagName e = ''input''
      \<or> tagName e = ''select''
      \<or> (has_attr e ''tabindex''
          \<and> map_of (attributes e) ''tabindex'' \<noteq> Some ''-1''))"

definition querySelectorAll_focusable :: "Container \<Rightarrow> node list" where
  "querySelectorAll_focusable c =
     map fst (filter (\<lambda>(n, e). focusable_selector e) (descendants c))"

text \<open>What the \<open>keydown\<close> listener of the container closes over.\<close>

record FocusTrap =
  trapContainer :: Container
  firstElement :: "node option"
  lastElement :: "node option"

definition handleTab :: "FocusTrap \<Rightarrow> string \<Rightarrow> bool \<Rightarrow> node option \<Rightarrow> Effect list" where
  "handleTab t key shiftKey active =
     (if key \<noteq> ''Tab'' then []
      else if shiftKey then
        (if active = firstElement t
         then PreventDefault # (case lastElement t of None \<Rightarrow> [] | Some l \<Rightarrow> [Focus l])
         else [])
      else
        (if active = lastElement t
         then PreventDefault # (case firstElement t of None \<Rightarrow> [] | Some f \<Rightarrow> [Focus f])
         else []))"

definition useFocusTrap_effect ::
  "bool \<Rightarrow> Container option \<Rightarrow> FocusTrap option \<times> Effect list" where
  "useFocusTrap_effect opened containerRef =
     (if \<not> opened then (None, [])
      else case containerRef of
        None \<Rightarrow> (None, [])
      | Some container \<Rightarrow>
          let focusableElements = querySelectorAll_focusable container;
              first = (case focusableElements of [] \<Rightarrow> None | x # _ \<Rightarrow> Some x);
              lst = (if focusableElements = [] then None
                     else Some (last focusableElements))
          in (Some \<lparr> trapContainer = container, firstElement = first,
                      lastElement = lst \<rparr>,
              case first of None \<Rightarrow> [] | Some f \<Rightarrow> [Focus f]))"

section \<open>The handlers of \<open>Navbar\<close>\<close>

definition activeLink :: "NavbarProps \<Rightarrow> NavbarState \<Rightarrow> string" where
  "activeLink P s = (if the_enableScrollSpy P then activeId s else currentRoute s)"

definition isActive :: "string \<Rightarrow> NavLink \<Rightarrow> bool" where
  "isActive a l = (a = href l \<or> a = link_id l)"

definition closeMenu :: "NavbarState \<Rightarrow> NavbarState \<times> Effect list" where
  "closeMenu s = (s\<lparr> isOpen := False \<rparr>, [FocusToggleButtonAfter 100])"

definition handleEscape :: "string \<Rightarrow> NavbarState \<Rightarrow> NavbarState \<times> Effect list" where
  "handleEscape key s = (if key = ''Escape'' \<and> isOpen s then closeMenu s else (s, []))"

text \<open>\<open>href.replace("#", "")\<close> removes the first \<open>#\<close> of the string.\<close>

definition handleLinkClick ::
  "NavbarProps \<Rightarrow> Browser \<Rightarrow> string \<Rightarrow> NavbarState \<Rightarrow> NavbarState \<times> Effect list" where
  "handleLinkClick P b h s =
     (let (s1, e1) = (if the_closeOnRouteChange P then closeMenu s else (s, []));
          s2 = s1\<lparr> currentRoute := h \<rparr>;
          e2 = (if onNavigate P then [CallOnNavigate h]
                else if the_enableScrollSpy P then
                  (case getElementById b (remove1 (CHR ''#'') h) of
                     None \<Rightarrow> []
                   | Some element \<Rightarrow> [ScrollIntoViewSmooth element])
                else [])
      in (s2, e1 @ e2))"

definition handleBackdropClick :: "NavbarState \<Rightarrow> NavbarState \<times> Effect list" where
  "handleBackdropClick s = closeMenu s"

text \<open>
  The effect that tracks the current route:
  \<open>window.location.hash || links[0]?.href || ""\<close>, where the empty string is falsy.
  Effects run in a browser only, where the guard \<open>typeof window !== "undefined"\<close> of
  this effect holds.
\<close>

definition route_effect :: "NavbarProps \<Rightarrow> Browser \<Rightarrow> NavbarState \<Rightarrow> NavbarState" where
  "route_effect P b s =
     s\<lparr> currentRoute :=
          (if locationHash b \<noteq> '''' then locationHash b
           else case links P of
                  [] \<Rightarrow> ''''
                | l # _ \<Rightarrow> if href l \<noteq> '''' then href l else '''') \<rparr>"

section \<open>The mounted component\<close>

text \<open>
  What React keeps between renders for the two effects with a cleanup that matters here:
  the closure returned by \<open>useLockBodyScroll\<close>, and the \<open>keydown\<close> listener that
  \<open>useFocusTrap\<close> attached to the panel.
\<close>

record Hooks =
  lockCleanup :: "LockCleanup option"
  tabListener :: "FocusTrap option"

record Instance =
  state :: NavbarState
  hooks :: Hooks
  browser :: Browser

text \<open>
  The content of the panel \<open>#slide-menu\<close> as the JSX writes it: the row with the close
  button and its icon, then the navigation list with one item and one anchor per link.
  The icon is the \<open>svg\<close> element that the icon library draws; its shapes are not
  interactive and are left out. Event handlers are not attributes, and the values of the
  \<open>class\<close> attributes are abbreviated.
\<close>

definition panel_link :: "nat \<times> NavLink \<Rightarrow> (node \<times> Element) list" where
  "panel_link kl =
     [(PanelItem (fst kl), \<lparr> tagName = ''li'', attributes = [] \<rparr>),
      (PanelAnchor (fst kl),
       \<lparr> tagName = ''a'',
         attributes = [(''href'', href (snd kl)),
           (''class'', ''block rounded-lg px-4 py-3 text-lg transition-colors'')] \<rparr>)]"

definition slide_menu :: "NavbarProps \<Rightarrow> Container" where
  "slide_menu P =
     \<lparr> descendants =
         [(CloseRow, \<lparr> tagName = ''div'', attributes = [(''class'', ''flex justify-end p-4'')] \<rparr>),
          (CloseButton,
           \<lparr> tagName = ''button'',
             attributes = [(''class'', ''flex min-h-11 min-w-11 items-center justify-center''),
               (''aria-label'', ''Close navigation menu'')] \<rparr>),
          (CloseIcon, \<lparr> tagName = ''svg'', attributes = [(''class'', ''h-6 w-6'')] \<rparr>),
          (PanelNav, \<lparr> tagName = ''nav'', attributes = [(''class'', ''px-8 pb-8'')] \<rparr>),
          (PanelList, \<lparr> tagName = ''ul'', attributes = [(''class'', ''space-y-2'')] \<rparr>)]
         @ concat (map panel_link (enumerate 0 (links P))) \<rparr>"

text \<open>
  React attaches the panel to \<open>menuRef\<close> while it is rendered, before the effects of
  that render run.
\<close>

definition menuRef :: "NavbarProps \<Rightarrow> NavbarState \<Rightarrow> Container option" where
  "menuRef P s = (if isOpen s then Some (slide_menu P) else None)"

definition sectionIds :: "NavbarProps \<Rightarrow> string list" where
  "sectionIds P = map link_id (links P)"

text \<open>The argument of \<open>useLockBodyScroll\<close>: \<open>isOpen && disableBodyScrollOnOpen\<close>.\<close>

definition lock_of :: "NavbarProps \<Rightarrow> NavbarState \<Rightarrow> bool" where
  "lock_of P s = (isOpen s \<and> the_disableBodyScrollOnOpen P)"

text \<open>
  The effects of the first render, in the order of the hook calls. They see the values of
  that render: the panel is closed, so the lock and the focus trap return at their guards.
\<close>

definition mount :: "NavbarProps \<Rightarrow> Browser \<Rightarrow> Instance \<times> Effect list" where
  "mount P b =
     (let s1 = handleScroll (the_scrollThreshold P) b initial_state;
          (b2, c) = useLockBodyScroll_effect (lock_of P initial_state) b;
          (t, e) = (if the_trapFocus P
                    then useFocusTrap_effect (isOpen initial_state)
                           (menuRef P initial_state)
                    else (None, []));
          s2 = route_effect P b2 s1
      in (\<lparr> state = s2, hooks = \<lparr> lockCleanup = c, tabListener = t \<rparr>, browser = b2 \<rparr>,
          e))"

text \<open>
  After a state change React renders again and, for every effect whose dependencies
  changed, runs the cleanup of the previous run and then the effect: \<open>[lock]\<close> for the
  body lock, \<open>[isOpen, containerRef]\<close> for the focus trap, which is only called when
  \<open>trapFocus\<close> is set.
\<close>

definition commit :: "NavbarProps \<Rightarrow> NavbarState \<Rightarrow> Instance \<Rightarrow> Instance \<times> Effect list" where
  "commit P old i =
     (let s = state i; h = hooks i; b = browser i;
          (b2, c) = (if lock_of P old = lock_of P s then (b, lockCleanup h)
                     else useLockBodyScroll_effect (lock_of P s)
                            (useLockBodyScroll_cleanup (lockCleanup h) b));
          (t, e) = (if the_trapFocus P \<and> isOpen old \<noteq> isOpen s
                    then useFocusTrap_effect (isOpen s) (menuRef P s)
                    else (tabListener h, []))
      in (\<lparr> state = s, hooks = \<lparr> lockCleanup = c, tabListener = t \<rparr>, browser = b2 \<rparr>,
          e))"



subsection \<open>Events\<close>

datatype Event =
    ScrollEvent real
  | ClickHamburger
  | ClickClose
  | ClickBackdrop
  | ClickLink string
  | KeyDown string bool
  | ObserverReport string "IntersectionObserverEntry list"

text \<open>
  A key event is dispatched at the focused element. It reaches the listener of the panel
  when that element is inside the panel, and then the listener of the document.
\<close>

definition inside :: "Container \<Rightarrow> node option \<Rightarrow> bool" where
  "inside c a =
     (case a of None \<Rightarrow> False | Some n \<Rightarrow> n \<in> set (map fst (descendants c)))"

definition keydown ::
  "Hooks \<Rightarrow> Browser \<Rightarrow> string \<Rightarrow> bool \<Rightarrow> NavbarState \<Rightarrow> NavbarState \<times> Effect list" where
  "keydown h b key shiftKey s =
     (let e1 = (case tabListener h of
                  None \<Rightarrow> []
                | Some t \<Rightarrow>
                    if inside (trapContainer t) (activeElement b)
                    then handleTab t key shiftKey (activeElement b) else []);
          (s2, e2) = handleEscape key s
      in (s2, e1 @ e2))"

definition has_observer :: "NavbarProps \<Rightarrow> Browser \<Rightarrow> string \<Rightarrow> bool" where
  "has_observer P b i =
     list_ex (\<lambda>ob. case ob of None \<Rightarrow> False | Some (j, element) \<Rightarrow> j = i)
       (useScrollSpy_observers (sectionIds P) (the_enableScrollSpy P) b)"

fun handle :: "NavbarProps \<Rightarrow> Event \<Rightarrow> Instance \<Rightarrow> Instance \<times> Effect list" where
  "handle P (ScrollEvent p) i =
     (let b = (browser i)\<lparr> scrollY := p \<rparr>
      in (i\<lparr> state := handleScroll (the_scrollThreshold P) b (state i), browser := b \<rparr>,
          []))"
| "handle P ClickHamburger i = (i\<lparr> state := (state i)\<lparr> isOpen := True \<rparr> \<rparr>, [])"
| "handle P ClickClose i =
     (let (s, e) = closeMenu (state i) in (i\<lparr> state := s \<rparr>, e))"
| "handle P ClickBackdrop i =
     (let (s, e) = handleBackdropClick (state i) in (i\<lparr> state := s \<rparr>, e))"
| "handle P (ClickLink h) i =
     (let (s, e) = handleLinkClick P (browser i) h (state i)
      in (i\<lparr> state := s \<rparr>, PreventDefault # e))"
| "handle P (KeyDown key shiftKey) i =
     (let (s, e) = keydown (hooks i) (browser i) key shiftKey (state i)
      in (i\<lparr> state := s \<rparr>, e))"
| "handle P (ObserverReport j entries) i =
     (if has_observer P (browser i) j
      then (i\<lparr> state := observer_callback j entries (state i) \<rparr>, [])
      else (i, []))"

text \<open>
  An event is handled and the render that follows is committed. A call of the caller's
  callback is recorded as an effect: what the caller does in it, such as rendering the
  parent again, is a step of its own (\<open>parent_rerender\<close>).
\<close>

definition dispatch :: "NavbarProps \<Rightarrow> Event \<Rightarrow> Instance \<Rightarrow> Instance \<times> Effect list" where
  "dispatch P ev i =
     (let (i1, e1) = handle P ev i;
          (i2, e2) = commit P (state i) i1
      in (i2, e1 @ e2))"

text \<open>A mounted component handles one event after another.\<close>

fun run :: "NavbarProps \<Rightarrow> Event list \<Rightarrow> Instance \<Rightarrow> Instance" where
  "run P [] i = i"
| "run P (ev # evs) i = run P evs (fst (dispatch P ev i))"

text \<open>The browser reports node \<open>n\<close> as \<open>document.activeElement\<close>.\<close>

definition with_focus :: "node \<Rightarrow> Instance \<Rightarrow> Instance" where
  "with_focus n i = i\<lparr> browser := (browser i)\<lparr> activeElement := Some n \<rparr> \<rparr>"

section \<open>Rendering\<close>

text \<open>
  Outside a browser there is no \<open>window\<close>: reading it throws a \<open>ReferenceError\<close>, while
  \<open>typeof window\<close> is the string \<open>undefined\<close>. Effects do not run there, and every
  \<open>useState\<close> cell holds its initial value.
\<close>

datatype Error = ReferenceError

definition typeof_window :: "Browser option \<Rightarrow> string" where
  "typeof_window w = (case w of None \<Rightarrow> ''undefined'' | Some b \<Rightarrow> ''object'')"

definition window_matchMedia :: "Browser option \<Rightarrow> string \<Rightarrow> Error + bool" where
  "window_matchMedia w q =
     (case w of None \<Rightarrow> Inl ReferenceError | Some b \<Rightarrow> Inr (matchMedia b q))"

definition prefersReducedMotion :: "Browser option \<Rightarrow> Error + bool" where
  "prefersReducedMotion w =
     (if typeof_window w \<noteq> ''undefined''
      then window_matchMedia w ''(prefers-reduced-motion: reduce)''
      else Inr False)"

definition breakpointClass :: "NavbarProps \<Rightarrow> string" where
  "breakpointClass P =
     (if the_mobileBreakpoint P = Sm then ''sm''
      else if the_mobileBreakpoint P = Lg then ''lg'' else ''md'')"

record View =
  navClass :: string
  navPaddingY :: string
  logoScaleShown :: real
  duration :: real
  navAriaLabel :: string
  linksShown :: "(NavLink \<times> bool) list"
  ariaExpanded :: bool
  panelShown :: bool
  hiddenBelow :: string

definition render :: "Browser option \<Rightarrow> NavbarProps \<Rightarrow> NavbarState \<Rightarrow> Error + View" where
  "render w P s =
     (case prefersReducedMotion w of
        Inl err \<Rightarrow> Inl err
      | Inr reduced \<Rightarrow>
          Inr \<lparr> navClass = bgClass P s,
                navPaddingY = navPadding s,
                logoScaleShown = currentLogoScale P s,
                duration = (if reduced then 0 else the_animateDuration P / 1000),
                navAriaLabel = the_ariaLabel P,
                linksShown = map (\<lambda>l. (l, isActive (activeLink P s) l)) (links P),
                ariaExpanded = isOpen s,
                panelShown = isOpen s,
                hiddenBelow = breakpointClass P \<rparr>)"

definition server_render :: "NavbarProps \<Rightarrow> Error + View" where
  "server_render P = render None P initial_state"

section \<open>The example page of the source and the example of the specification\<close>

text \<open>\<open>NavbarExample\<close>: the configuration and the four links of the demo page.\<close>

definition navConfig :: NavbarConfig where
  "navConfig =
     \<lparr> side = Some SideRight, initialBg = Some ''bg-transparent'',
       scrolledBg = Some ''bg-white/95 shadow-md'', scrollThreshold = Some 20,
       logoScale = Some \<lparr> initial = 1, scrolled = 92 / 100 \<rparr>,
       closeOnRouteChange = Some True, trapFocus = Some True,
       disableBodyScrollOnOpen = None, ariaLabel = None, animateDuration = None,
       enableScrollSpy = Some True, mobileBreakpoint = Some Md \<rparr>"

definition hero :: NavLink where
  "hero = \<lparr> link_id = ''hero'', label = ''Home'', href = ''#hero'' \<rparr>"

definition about :: NavLink where
  "about = \<lparr> link_id = ''about'', label = ''About'', href = ''#about'' \<rparr>"

definition services :: NavLink where
  "services = \<lparr> link_id = ''services'', label = ''Services'', href = ''#services'' \<rparr>"

definition contact :: NavLink where
  "contact = \<lparr> link_id = ''contact'', label = ''Contact'', href = ''#contact'' \<rparr>"

definition navLinks :: "NavLink list" where
  "navLinks = [hero, about, services, contact]"

definition NavbarExample :: NavbarProps where
  "NavbarExample = \<lparr> config = Some navConfig, links = navLinks, onNavigate = False \<rparr>"

text \<open>
  The demo page in a browser: the four sections exist, nothing is scrolled, the vertical
  scrollbar is 15 pixels wide, the body has no inline style and the location has no hash.
\<close>

definition demo_page :: Browser where
  "demo_page =
     \<lparr> scrollY = 0, innerWidth = 1280, clientWidth = 1265,
       bodyStyle = \<lparr> overflow = '''', paddingRight = '''', otherProperties = (\<lambda>p. '''') \<rparr>,
       locationHash = '''',
       getElementById = (\<lambda>i. if i = ''hero'' then Some (PageNode 0)
                            else if i = ''about'' then Some (PageNode 1)
                            else if i = ''services'' then Some (PageNode 2)
                            else if i = ''contact'' then Some (PageNode 3)
                            else None),
       activeElement = None, matchMedia = (\<lambda>q. False) \<rparr>"

text \<open>
  The example of the specification: the links \<open>hero\<close> and \<open>about\<close> under the default
  configuration, where scroll-spy is off.
\<close>

definition two_links :: NavbarProps where
  "two_links = \<lparr> config = None, links = [hero, about], onNavigate = False \<rparr>"



section \<open>The specification's wording\<close>

text \<open>
  The section that an event makes active, if it does: a report of the observer of an
  existing section whose first entry is intersecting. The last such event of a sequence
  names the section that the specification calls the most recently intersecting one.
\<close>

fun intersecting_report :: "NavbarProps \<Rightarrow> Browser \<Rightarrow> Event \<Rightarrow> string option" where
  "intersecting_report P b (ObserverReport j entries) =
     (if has_observer P b j
         \<and> (case entries of [] \<Rightarrow> False | entry # _ \<Rightarrow> isIntersecting entry)
      then Some j else None)"
| "intersecting_report P b ev = None"

definition last_intersecting :: "NavbarProps \<Rightarrow> Browser \<Rightarrow> Event list \<Rightarrow> string option" where
  "last_intersecting P b evs =
     (case List.map_filter (intersecting_report P b) evs of
        [] \<Rightarrow> None
      | j # js \<Rightarrow> Some (last (j # js)))"

text \<open>
  The focusable elements as the specification lists them: links, buttons that are not
  disabled, textareas, inputs, selects, and elements with a non-negative tabindex, that
  is, one written with digits only.
\<close>

definition tabindex_nonneg :: "Element \<Rightarrow> bool" where
  "tabindex_nonneg e =
     (case map_of (attributes e) ''tabindex'' of
        None \<Rightarrow> False
      | Some v \<Rightarrow> v \<noteq> [] \<and> list_all (\<lambda>c. c \<in> set ''0123456789'') v)"

definition spec_focusable :: "Element \<Rightarrow> bool" where
  "spec_focusable e =
     ((tagName e = ''a'' \<and> has_attr e ''href'')
      \<or> (tagName e = ''button'' \<and> \<not> has_attr e ''disabled'')
      \<or> tagName e = ''textarea''
      \<or> tagName e = ''input''
      \<or> tagName e = ''select''
      \<or> tabindex_nonneg e)"

text \<open>
  A link that points at the top of the page with an empty \<open>href\<close>, on a page with
  scroll-spy.
\<close>

definition top_link :: NavLink where
  "top_link = \<lparr> link_id = ''top'', label = ''Top'', href = '''' \<rparr>"

definition top_page :: NavbarProps where
  "top_page = \<lparr> config = Some navConfig, links = [top_link], onNavigate = False \<rparr>"

section \<open>The invariant of the body lock\<close>



section \<open>Auxiliary facts\<close>

lemmas config_defs =
  the_config_def empty_config_def or_default_def the_scrollThreshold_def
  the_closeOnRouteChange_def the_trapFocus_def the_disableBodyScrollOnOpen_def
  the_enableScrollSpy_def navConfig_def

lemmas example_defs =
  NavbarExample_def navLinks_def two_links_def hero_def about_def services_def
  contact_def demo_page_def

lemma useFocusTrap_effect_closed [simp]: "useFocusTrap_effect False r = (None, [])"
  by (simp add: useFocusTrap_effect_def)

subsection \<open>Mounting\<close>

lemma mount_state:
  "state (fst (mount P b)) =
     \<lparr> isOpen = False,
       currentRoute = (if locationHash b \<noteq> '''' then locationHash b
                       else case links P of [] \<Rightarrow> '''' | l # _ \<Rightarrow> href l),
       isScrolled = scrollY b > the_scrollThreshold P,
       activeId = '''' \<rparr>"
  by (simp add: mount_def Let_def split_def lock_of_def initial_state_def
      useLockBodyScroll_effect_def route_effect_def handleScroll_def split: list.splits)


lemma mount_browser: "browser (fst (mount P b)) = b"
  by (simp add: mount_def Let_def split_def lock_of_def initial_state_def
      useLockBodyScroll_effect_def)

subsection \<open>Handlers and the commit\<close>

lemma handleLinkClick_effects:
  "snd (handleLinkClick P b h s) =
     (if the_closeOnRouteChange P then [FocusToggleButtonAfter 100] else [])
     @ (if onNavigate P then [CallOnNavigate h]
        else if the_enableScrollSpy P then
          (case getElementById b (remove1 (CHR ''#'') h) of
             None \<Rightarrow> []
           | Some element \<Rightarrow> [ScrollIntoViewSmooth element])
        else [])"
  by (simp add: handleLinkClick_def Let_def split_def closeMenu_def)

lemma handleLinkClick_state:
  "fst (handleLinkClick P b h s) =
     s\<lparr> isOpen := (if the_closeOnRouteChange P then False else isOpen s),
        currentRoute := h \<rparr>"
  by (simp add: handleLinkClick_def Let_def split_def closeMenu_def)

lemma handle_browser:
  "browser (fst (handle P ev i)) =
     (case ev of ScrollEvent p \<Rightarrow> (browser i)\<lparr> scrollY := p \<rparr> | _ \<Rightarrow> browser i)"
  by (cases ev) (simp_all add: Let_def split_def)

lemma commit_state: "state (fst (commit P old i)) = state i"
  by (simp add: commit_def Let_def split_def)

lemma dispatch_state: "state (fst (dispatch P ev i)) = state (fst (handle P ev i))"
  by (simp add: dispatch_def Let_def split_def commit_state)

lemma dispatch_ClickLink_state:
  "state (fst (dispatch P (ClickLink h) i)) = fst (handleLinkClick P (browser i) h (state i))"
  by (simp add: dispatch_state Let_def split_def)

lemma dispatch_ClickLink_effects:
  "snd (dispatch P (ClickLink h) i) =
     PreventDefault # snd (handleLinkClick P (browser i) h (state i))"
  by (simp add: dispatch_def commit_def Let_def split_def handleLinkClick_state)

lemma commit_getElementById:
  "getElementById (browser (fst (commit P old i))) = getElementById (browser i)"
  by (simp add: commit_def Let_def split_def useLockBodyScroll_effect_def
      useLockBodyScroll_cleanup_def split: option.splits)

lemma dispatch_getElementById:
  "getElementById (browser (fst (dispatch P ev i))) = getElementById (browser i)"
  by (cases ev) (simp_all add: dispatch_def Let_def split_def commit_getElementById)

lemma run_getElementById:
  "getElementById (browser (run P evs i)) = getElementById (browser i)"
  by (induction evs arbitrary: i) (simp_all add: dispatch_getElementById)

lemma run_snoc: "run P (evs @ [ev]) i = fst (dispatch P ev (run P evs i))"
  by (induction evs arbitrary: i) simp_all

subsection \<open>The printed width and the setter of the padding\<close>






subsection \<open>The body lock keeps its invariant\<close>







subsection \<open>A parent render after a click\<close>




subsection \<open>Observer reports\<close>

lemma has_observer_cong:
  "getElementById b = getElementById b' \<Longrightarrow> has_observer P b j = has_observer P b' j"
  by (simp add: has_observer_def useScrollSpy_observers_def)

lemma intersecting_report_cong:
  "getElementById b = getElementById b' \<Longrightarrow>
     intersecting_report P b ev = intersecting_report P b' ev"
  by (cases ev) (simp_all add: has_observer_cong [of b b'])

lemma dispatch_activeId:
  "activeId (state (fst (dispatch P ev i))) =
     (case intersecting_report P (browser i) ev of
        None \<Rightarrow> activeId (state i)
      | Some j \<Rightarrow> j)"
  by (cases ev)
     (simp_all add: dispatch_state Let_def split_def handleScroll_def closeMenu_def
        handleBackdropClick_def handleLinkClick_def keydown_def handleEscape_def
        observer_callback_def split: list.splits)

lemma last_intersecting_snoc:
  "last_intersecting P b (evs @ [ev]) =
     (case intersecting_report P b ev of
        None \<Rightarrow> last_intersecting P b evs
      | Some j \<Rightarrow> Some j)"
proof -
  have alt: "last_intersecting P b xs =
      (if List.map_filter (intersecting_report P b) xs = [] then None
       else Some (last (List.map_filter (intersecting_report P b) xs)))" for xs
    by (simp add: last_intersecting_def split: list.splits)
  have app: "List.map_filter (intersecting_report P b) (evs @ [ev]) =
      List.map_filter (intersecting_report P b) evs
      @ (case intersecting_report P b ev of None \<Rightarrow> [] | Some j \<Rightarrow> [j])"
    by (simp add: List.map_filter_def split: option.splits)
  show ?thesis
    unfolding alt app by (simp split: option.splits)
qed

lemma run_activeId:
  "activeId (state (run P evs i)) =
     (case last_intersecting P (browser i) evs of
        None \<Rightarrow> activeId (state i)
      | Some j \<Rightarrow> j)"
proof (induction evs rule: rev_induct)
  case Nil
  show ?case by (simp add: last_intersecting_def List.map_filter_def)
next
  case (snoc ev evs)
  have "intersecting_report P (browser (run P evs i)) ev = intersecting_report P (browser i) ev"
    by (rule intersecting_report_cong) (rule run_getElementById)
  with snoc show ?case
    by (simp add: run_snoc dispatch_activeId last_intersecting_snoc split: option.splits)
qed

subsection \<open>The focusable elements of the panel\<close>

lemma panel_links_select:
  assumes "\<not> sel \<lparr> tagName = ''li'', attributes = [] \<rparr>"
    and "\<And>h. sel \<lparr> tagName = ''a'',
         attributes = [(''href'', h),
           (''class'', ''block rounded-lg px-4 py-3 text-lg transition-colors'')] \<rparr>"
  shows "map fst (filter (\<lambda>(n, e). sel e) (concat (map panel_link (enumerate k ls)))) =
     map PanelAnchor [k..<k + length ls]"
proof (induction ls arbitrary: k)
  case Nil
  show ?case by simp
next
  case (Cons l ls)
  have upt: "[k..<k + length (l # ls)] = k # [Suc k..<Suc k + length ls]"
    by (subst upt_rec) simp
  show ?case
    unfolding upt using Cons [of "Suc k"] assms by (simp add: panel_link_def)
qed

lemma slide_menu_focusable:
  "querySelectorAll_focusable (slide_menu P) =
     CloseButton # map PanelAnchor [0..<length (links P)]"
  using panel_links_select [of focusable_selector 0 "links P"]
  by (simp add: querySelectorAll_focusable_def slide_menu_def focusable_selector_def
      has_attr_def)

lemma slide_menu_spec_focusable:
  "map fst (filter (\<lambda>(n, e). spec_focusable e) (descendants (slide_menu P))) =
     CloseButton # map PanelAnchor [0..<length (links P)]"
  using panel_links_select [of spec_focusable 0 "links P"]
  by (simp add: slide_menu_def spec_focusable_def tabindex_nonneg_def has_attr_def)

lemma focusable_inside:
  assumes "n \<in> set (querySelectorAll_focusable c)"
  shows "inside c (Some n)"
  using assms by (auto simp add: inside_def querySelectorAll_focusable_def)

lemma useFocusTrap_effect_open:
  assumes "querySelectorAll_focusable c = x # xs"
  shows "useFocusTrap_effect True (Some c) =
     (Some \<lparr> trapContainer = c, firstElement = Some x, lastElement = Some (last (x # xs)) \<rparr>,
      [Focus x])"
  using assms by (simp add: useFocusTrap_effect_def Let_def)

lemma open_panel:
  assumes "the_trapFocus P" and "\<not> isOpen (state i)"
  defines "F \<equiv> querySelectorAll_focusable (slide_menu P)"
  defines "r \<equiv> dispatch P ClickHamburger i"
  shows "isOpen (state (fst r))"
    and "tabListener (hooks (fst r)) =
      Some \<lparr> trapContainer = slide_menu P, firstElement = Some (hd F),
             lastElement = Some (last F) \<rparr>"
    and "snd r = [Focus (hd F)]"
  using assms(1,2) unfolding F_def r_def
  by (simp_all add: dispatch_def commit_def Let_def split_def menuRef_def
      slide_menu_focusable useFocusTrap_effect_open [OF slide_menu_focusable])

lemma tab_effects:
  assumes "tabListener (hooks i) = Some t"
    and "inside (trapContainer t) (activeElement (browser i))"
  shows "snd (dispatch P (KeyDown ''Tab'' shiftKey) i) =
     handleTab t ''Tab'' shiftKey (activeElement (browser i))"
  using assms
  by (simp add: dispatch_def commit_def Let_def split_def keydown_def handleEscape_def)

lemma with_focus_simps [simp]:
  "state (with_focus n i) = state i"
  "hooks (with_focus n i) = hooks i"
  "activeElement (browser (with_focus n i)) = Some n"
  by (simp_all add: with_focus_def)

section \<open>Scroll state\<close>

text \<open>
  Claim C1. For every scroll position \<open>p\<close> and configured threshold \<open>t\<close>, the navbar is in
  the scrolled visual state (scrolled background, reduced padding, scrolled logo scale)
  if and only if \<open>p > t\<close>: this holds after a scroll event to \<open>p\<close> and after mounting at
  \<open>p\<close>. The comparison is strict: at \<open>p = t\<close> the navbar shows the initial presets.
\<close>

theorem scrolled_iff_above_threshold:
  fixes P :: NavbarProps and i :: Instance and p :: real and b :: Browser
  defines "t \<equiv> the_scrollThreshold P"
  defines "s1 \<equiv> state (fst (dispatch P (ScrollEvent p) i))"
  defines "s0 \<equiv> state (fst (mount P (b\<lparr> scrollY := p \<rparr>)))"
  defines "s2 \<equiv> state (fst (dispatch P (ScrollEvent t) i))"
  shows "isScrolled s1 = (p > t) \<and> isScrolled s0 = (p > t)
    \<and> bgClass P s1 = (if p > t then the_scrolledBg P else the_initialBg P)
    \<and> navPadding s1 = (if p > t then ''0.75rem'' else ''1.25rem'')
    \<and> linkPadding s1 = (if p > t then ''0.5rem'' else ''0.75rem'')
    \<and> currentLogoScale P s1 =
        (if p > t then scrolled (the_logoScale P) else initial (the_logoScale P))
    \<and> \<not> isScrolled s2
    \<and> bgClass P s2 = the_initialBg P
    \<and> navPadding s2 = ''1.25rem''
    \<and> linkPadding s2 = ''0.75rem''
    \<and> currentLogoScale P s2 = initial (the_logoScale P)"
  unfolding s1_def s0_def s2_def t_def
  by (simp add: dispatch_state mount_state Let_def handleScroll_def bgClass_def
      navPadding_def linkPadding_def currentLogoScale_def)

section \<open>Body scroll lock\<close>




section \<open>Link clicks\<close>

text \<open>
  Claim C3. For every link click, the caller-supplied navigation callback is invoked,
  with the href of the link, exactly when it is present; an element is scrolled into view
  exactly when the callback is absent, scroll-spy is enabled and the element is the one
  whose id is the href without its first \<open>#\<close>. So with a callback the in-page scroll is
  never triggered, and with neither a callback nor scroll-spy neither happens.
\<close>

theorem link_click_navigation:
  fixes P :: NavbarProps and i :: Instance and h :: string
  defines "effs \<equiv> snd (dispatch P (ClickLink h) i)"
  shows "((CallOnNavigate g \<in> set effs) = (onNavigate P \<and> g = h))
    \<and> ((ScrollIntoViewSmooth n \<in> set effs) =
         (\<not> onNavigate P \<and> the_enableScrollSpy P
          \<and> getElementById (browser i) (remove1 (CHR ''#'') h) = Some n))"
  unfolding effs_def dispatch_ClickLink_effects
  by (cases "getElementById (browser i) (remove1 (CHR ''#'') h)";
      cases "the_closeOnRouteChange P"; cases "onNavigate P"; cases "the_enableScrollSpy P")
     (auto simp add: handleLinkClick_effects)




section \<open>Scroll-spy\<close>

text \<open>
  Claim C5. With scroll-spy enabled, after any sequence of events the active link is the
  section of the last observer report whose first entry was intersecting, and it is the
  active link from before the sequence when there was no such report. A single report
  changes the active link only when its observer exists and its first entry is
  intersecting: reports with a non-intersecting entry or with no entry leave it unchanged.
\<close>

theorem scroll_spy_last_intersecting:
  fixes P :: NavbarProps and i :: Instance and evs :: "Event list"
  assumes "the_enableScrollSpy P"
  shows "activeLink P (state (run P evs i)) =
      (case last_intersecting P (browser i) evs of
         None \<Rightarrow> activeLink P (state i)
       | Some j \<Rightarrow> j)
    \<and> activeLink P (state (fst (dispatch P (ObserverReport k entries) i))) =
      (if has_observer P (browser i) k
          \<and> (case entries of [] \<Rightarrow> False | entry # _ \<Rightarrow> isIntersecting entry)
       then k else activeLink P (state i))"
proof -
  have al: "activeLink P s = activeId s" for s
    using assms by (simp add: activeLink_def)
  show ?thesis
    unfolding al by (simp add: run_activeId dispatch_activeId)
qed

theorem scroll_spy_last_intersecting_witness:
  "the_enableScrollSpy NavbarExample
   \<and> activeLink NavbarExample
       (state (run NavbarExample
         [ObserverReport ''hero'' [\<lparr> isIntersecting = True, target = PageNode 0 \<rparr>],
          ClickLink ''#contact'',
          ObserverReport ''about'' [\<lparr> isIntersecting = True, target = PageNode 1 \<rparr>],
          ObserverReport ''services'' [\<lparr> isIntersecting = False, target = PageNode 2 \<rparr>],
          ObserverReport ''contact'' []]
         (fst (mount NavbarExample demo_page)))) = ''about''"
  using scroll_spy_last_intersecting [of NavbarExample
      "[ObserverReport ''hero'' [\<lparr> isIntersecting = True, target = PageNode 0 \<rparr>],
        ClickLink ''#contact'',
        ObserverReport ''about'' [\<lparr> isIntersecting = True, target = PageNode 1 \<rparr>],
        ObserverReport ''services'' [\<lparr> isIntersecting = False, target = PageNode 2 \<rparr>],
        ObserverReport ''contact'' []]"
      "fst (mount NavbarExample demo_page)"]
  by (simp add: config_defs example_defs mount_browser mount_state activeLink_def
      last_intersecting_def List.map_filter_def has_observer_def
      useScrollSpy_observers_def sectionIds_def del: run.simps)

section \<open>The current route\<close>

text \<open>
  Claim C6. With scroll-spy disabled and a non-empty link list, after mount the active
  link is the location hash when a hash is present, so that the links rendered active are
  those whose href (or id) is the hash, and it is the href of the first link, which is
  then rendered active, when no hash is present; a click on a link makes that link the
  active one. In the example with the links \<open>hero\<close> and \<open>about\<close>, with no hash the
  active link is \<open>hero\<close>, and after navigating to \<open>#about\<close> and clicking it the active
  link is \<open>about\<close>.
\<close>

theorem route_default_active_link:
  fixes P :: NavbarProps and b b' :: Browser and l k :: NavLink and ls :: "NavLink list"
    and i :: Instance
  assumes "\<not> the_enableScrollSpy P" and "links P = l # ls"
  defines "a \<equiv> activeLink P (state (fst (mount P b)))"
  shows "a = (if locationHash b \<noteq> '''' then locationHash b else href l)
    \<and> (if locationHash b \<noteq> ''''
        then isActive a k = (href k = locationHash b \<or> link_id k = locationHash b)
        else isActive a l)
    \<and> activeLink P (state (fst (dispatch P (ClickLink (href k)) i))) = href k
    \<and> isActive (activeLink P (state (fst (dispatch P (ClickLink (href k)) i)))) k
    \<and> map link_id (filter (isActive (activeLink two_links
         (state (fst (mount two_links (b'\<lparr> locationHash := '''' \<rparr>))))))
         (links two_links)) = [''hero'']
    \<and> map link_id (filter (isActive (activeLink two_links
         (state (fst (dispatch two_links (ClickLink ''#about'')
           (fst (mount two_links (b'\<lparr> locationHash := ''#about'' \<rparr>))))))))
         (links two_links)) = [''about'']"
proof -
  have general: "a = (if locationHash b \<noteq> '''' then locationHash b else href l)
    \<and> (if locationHash b \<noteq> ''''
        then isActive a k = (href k = locationHash b \<or> link_id k = locationHash b)
        else isActive a l)
    \<and> activeLink P (state (fst (dispatch P (ClickLink (href k)) i))) = href k
    \<and> isActive (activeLink P (state (fst (dispatch P (ClickLink (href k)) i)))) k"
    using assms(1,2) unfolding a_def
    by (auto simp add: activeLink_def isActive_def mount_state dispatch_ClickLink_state
        handleLinkClick_state)
  have example: "map link_id (filter (isActive (activeLink two_links
         (state (fst (mount two_links (b'\<lparr> locationHash := '''' \<rparr>))))))
         (links two_links)) = [''hero'']
    \<and> map link_id (filter (isActive (activeLink two_links
         (state (fst (dispatch two_links (ClickLink ''#about'')
           (fst (mount two_links (b'\<lparr> locationHash := ''#about'' \<rparr>))))))))
         (links two_links)) = [''about'']"
    by (simp add: activeLink_def isActive_def mount_state dispatch_ClickLink_state
        handleLinkClick_state config_defs example_defs)
  from general example show ?thesis by blast
qed

theorem route_default_active_link_witness:
  "\<not> the_enableScrollSpy two_links \<and> links two_links = hero # [about]
   \<and> activeLink two_links (state (fst (mount two_links demo_page))) = ''#hero''
   \<and> isActive (activeLink two_links (state (fst (mount two_links demo_page)))) hero
   \<and> activeLink two_links (state (fst (mount two_links
        (demo_page\<lparr> locationHash := ''#about'' \<rparr>)))) = ''#about''"
  using route_default_active_link [of two_links hero "[about]" demo_page]
    route_default_active_link [of two_links hero "[about]"
      "demo_page\<lparr> locationHash := ''#about'' \<rparr>"]
  by (simp add: config_defs example_defs activeLink_def isActive_def mount_state)

section \<open>The Escape key\<close>

text \<open>
  Claim C7. Pressing Escape while the panel is open closes it, for every configuration
  and so for every value of the focus-trap setting; pressing Escape while the panel is
  closed leaves the whole component as it was and requests nothing from the browser.
\<close>

theorem escape_closes_panel:
  fixes P :: NavbarProps and i :: Instance and shiftKey :: bool
  defines "r \<equiv> dispatch P (KeyDown ''Escape'' shiftKey) i"
  shows "(isOpen (state i) \<longrightarrow> \<not> isOpen (state (fst r)))
    \<and> (\<not> isOpen (state i) \<longrightarrow> fst r = i \<and> snd r = [])"
  unfolding r_def
  by (simp add: dispatch_def commit_def Let_def split_def keydown_def handleEscape_def
      closeMenu_def handleTab_def split: option.splits)

theorem escape_closes_panel_witness:
  "isOpen (state (fst (dispatch NavbarExample ClickHamburger
       (fst (mount NavbarExample demo_page)))))
   \<and> \<not> isOpen (state (fst (dispatch NavbarExample (KeyDown ''Escape'' False)
       (fst (dispatch NavbarExample ClickHamburger (fst (mount NavbarExample demo_page)))))))
   \<and> \<not> isOpen (state (fst (mount two_links demo_page)))
   \<and> fst (dispatch two_links (KeyDown ''Escape'' False) (fst (mount two_links demo_page)))
       = fst (mount two_links demo_page)
   \<and> snd (dispatch two_links (KeyDown ''Escape'' False) (fst (mount two_links demo_page)))
       = []"
  using escape_closes_panel [of "fst (dispatch NavbarExample ClickHamburger
        (fst (mount NavbarExample demo_page)))" NavbarExample False]
    escape_closes_panel [of "fst (mount two_links demo_page)" two_links False]
  by (simp add: dispatch_state mount_state)

section \<open>The focus trap\<close>

text \<open>
  Claim C8. When focus trapping is configured and the panel opens, its focusable elements
  are the close button followed by the anchors of the links; these are exactly the
  elements of the panel that the specification lists (links, buttons that are not
  disabled, textareas, inputs, selects, elements with a non-negative tabindex). Opening
  the panel moves focus to the first of them; Tab on the last one prevents the default
  and moves focus to the first, and Shift+Tab on the first one prevents the default and
  moves focus to the last.
\<close>

theorem focus_trap_wraps:
  fixes P :: NavbarProps and i :: Instance
  assumes "the_trapFocus P" and "\<not> isOpen (state i)"
  defines "F \<equiv> querySelectorAll_focusable (slide_menu P)"
  defines "opened \<equiv> fst (dispatch P ClickHamburger i)"
  shows "F = CloseButton # map PanelAnchor [0..<length (links P)]
    \<and> F = map fst (filter (\<lambda>(n, e). spec_focusable e) (descendants (slide_menu P)))
    \<and> isOpen (state opened)
    \<and> snd (dispatch P ClickHamburger i) = [Focus (hd F)]
    \<and> snd (dispatch P (KeyDown ''Tab'' False) (with_focus (last F) opened)) =
        [PreventDefault, Focus (hd F)]
    \<and> snd (dispatch P (KeyDown ''Tab'' True) (with_focus (hd F) opened)) =
        [PreventDefault, Focus (last F)]"
proof -
  have F: "F = CloseButton # map PanelAnchor [0..<length (links P)]"
    unfolding F_def by (rule slide_menu_focusable)
  have spec: "F = map fst (filter (\<lambda>(n, e). spec_focusable e) (descendants (slide_menu P)))"
    unfolding F by (rule slide_menu_spec_focusable [symmetric])
  note op = open_panel [OF assms(1,2), folded F_def opened_def]
  have listener: "tabListener (hooks (with_focus n opened)) =
      Some \<lparr> trapContainer = slide_menu P, firstElement = Some (hd F),
             lastElement = Some (last F) \<rparr>" for n
    using op(2) by simp
  have "F \<noteq> []"
    using F by simp
  then have mem: "hd F \<in> set F" "last F \<in> set F"
    by simp_all
  have ins: "inside (slide_menu P) (Some (hd F))" "inside (slide_menu P) (Some (last F))"
    using mem unfolding F_def by (simp_all add: focusable_inside)
  have tab: "snd (dispatch P (KeyDown ''Tab'' False) (with_focus (last F) opened)) =
      [PreventDefault, Focus (hd F)]"
    using tab_effects [where i = "with_focus (last F) opened" and P = P
        and shiftKey = False, OF listener] ins
    by (simp add: handleTab_def)
  have shift: "snd (dispatch P (KeyDown ''Tab'' True) (with_focus (hd F) opened)) =
      [PreventDefault, Focus (last F)]"
    using tab_effects [where i = "with_focus (hd F) opened" and P = P
        and shiftKey = True, OF listener] ins
    by (simp add: handleTab_def)
  from F spec op(1) op(3) tab shift show ?thesis by blast
qed

theorem focus_trap_wraps_witness:
  "the_trapFocus NavbarExample
   \<and> \<not> isOpen (state (fst (mount NavbarExample demo_page)))
   \<and> querySelectorAll_focusable (slide_menu NavbarExample) =
       [CloseButton, PanelAnchor 0, PanelAnchor 1, PanelAnchor 2, PanelAnchor 3]
   \<and> snd (dispatch NavbarExample ClickHamburger (fst (mount NavbarExample demo_page))) =
       [Focus CloseButton]
   \<and> snd (dispatch NavbarExample (KeyDown ''Tab'' False)
         (with_focus (PanelAnchor 3)
           (fst (dispatch NavbarExample ClickHamburger
             (fst (mount NavbarExample demo_page)))))) = [PreventDefault, Focus CloseButton]
   \<and> snd (dispatch NavbarExample (KeyDown ''Tab'' True)
         (with_focus CloseButton
           (fst (dispatch NavbarExample ClickHamburger
             (fst (mount NavbarExample demo_page)))))) = [PreventDefault, Focus (PanelAnchor 3)]"
proof -
  have trap: "the_trapFocus NavbarExample"
    by (simp add: config_defs NavbarExample_def)
  have closed: "\<not> isOpen (state (fst (mount NavbarExample demo_page)))"
    by (simp add: mount_state)
  have n: "[0..<length (links NavbarExample)] = [0, 1, 2, 3]"
    by (simp add: example_defs upt_rec)
  note wraps = focus_trap_wraps [OF trap closed]
  from wraps have F: "querySelectorAll_focusable (slide_menu NavbarExample) =
      [CloseButton, PanelAnchor 0, PanelAnchor 1, PanelAnchor 2, PanelAnchor 3]"
    unfolding n by simp
  from wraps trap closed show ?thesis
    unfolding F by simp
qed

section \<open>Rendering outside a browser\<close>

text \<open>
  Claim C9. Rendering the component where there is no \<open>window\<close> does not throw and
  produces the default output: initial background and padding, initial logo scale, panel
  closed, every link compared with the empty route, and the animation duration computed
  from the configuration alone, \<open>window.matchMedia\<close> not being touched (touching it
  there would throw). The state is the initial one: not scrolled, closed, empty current
  route. With or without a window, rendering never throws.
\<close>

theorem server_render_default:
  "server_render P =
     Inr \<lparr> navClass = the_initialBg P, navPaddingY = ''1.25rem'',
           logoScaleShown = initial (the_logoScale P),
           duration = the_animateDuration P / 1000,
           navAriaLabel = the_ariaLabel P,
           linksShown = map (\<lambda>l. (l, isActive '''' l)) (links P),
           ariaExpanded = False, panelShown = False, hiddenBelow = breakpointClass P \<rparr>
   \<and> \<not> isScrolled initial_state \<and> \<not> isOpen initial_state
   \<and> currentRoute initial_state = ''''
   \<and> prefersReducedMotion None = Inr False
   \<and> window_matchMedia None q = Inl ReferenceError
   \<and> (\<exists>v. render w P s = Inr v)"
  by (cases w)
     (simp_all add: server_render_def render_def prefersReducedMotion_def typeof_window_def
      window_matchMedia_def initial_state_def bgClass_def navPadding_def
      currentLogoScale_def activeLink_def)

section \<open>The active link before any observer report\<close>

text \<open>
  Claim C10, as amended. With scroll-spy enabled the active-link identifier is
  initialised to the empty string and is still empty after mount, so before any observer
  report no link with a non-empty href and a non-empty id is rendered active: the first
  link is the default only with scroll-spy disabled. A link is rendered active exactly
  when the active identifier equals its href or its id.
\<close>

theorem scroll_spy_initially_inactive:
  fixes P :: NavbarProps and b :: Browser and l :: NavLink
  assumes "the_enableScrollSpy P"
  defines "a \<equiv> activeLink P (state (fst (mount P b)))"
  shows "activeId initial_state = '''' \<and> activeLink P initial_state = '''' \<and> a = ''''
    \<and> isActive a l = (href l = '''' \<or> link_id l = '''')
    \<and> isActive x l = (x = href l \<or> x = link_id l)"
  using assms(1) unfolding a_def
  by (auto simp add: activeLink_def isActive_def mount_state initial_state_def)

theorem scroll_spy_initially_inactive_witness:
  "the_enableScrollSpy NavbarExample
   \<and> activeLink NavbarExample (state (fst (mount NavbarExample demo_page))) = ''''
   \<and> \<not> isActive (activeLink NavbarExample (state (fst (mount NavbarExample demo_page)))) hero
   \<and> filter (isActive (activeLink NavbarExample (state (fst (mount NavbarExample demo_page)))))
       (links NavbarExample) = []"
  using scroll_spy_initially_inactive [of NavbarExample demo_page hero]
  by (simp add: config_defs example_defs activeLink_def isActive_def mount_state)

text \<open>
  The claim as stated fails for a link with an empty href: with scroll-spy enabled and
  before any observer report, the link is rendered active.
\<close>

theorem scroll_spy_initially_inactive_counterexample:
  "the_enableScrollSpy top_page
   \<and> activeLink top_page (state (fst (mount top_page demo_page))) = ''''
   \<and> isActive (activeLink top_page (state (fst (mount top_page demo_page)))) top_link
   \<and> top_link \<in> set (links top_page)"
  by (simp add: config_defs example_defs top_page_def top_link_def activeLink_def
      isActive_def mount_state)

end
